theory Spec2Isabelle
  imports Complex_Main "HOL-Library.Sublist"
begin

section \<open>The breed recommendation engine (recommend-breeds flow)\<close>

text \<open>
  A shallow embedding of \<^verbatim>\<open>recommendBreeds\<close> and its helpers. A JavaScript number is
  modelled as a rational: a literal such as \<^verbatim>\<open>0.3\<close> stands for 3/10, and NaN and the
  infinities do not occur. The profit and return-on-investment computation is carried
  out in double precision, every operation rounded to the nearest double
  (\<open>round_to_double\<close>); the normalized scores and their weighted sum are computed
  exactly. The breed catalog (\<^verbatim>\<open>indianBreedData\<close>) and the text-generation prompt
  (\<^verbatim>\<open>recommendationPrompt\<close>) are parameters of the model.
\<close>

subsection \<open>Data\<close>

text \<open>The tiers \<^verbatim>\<open>'Low' | 'Medium' | 'High'\<close>.\<close>

datatype tier = Low | Medium | High

text \<open>A tier is the string of its name in the program.\<close>

fun tier_name :: "tier \<Rightarrow> string" where
  "tier_name Low = ''Low''"
| "tier_name Medium = ''Medium''"
| "tier_name High = ''High''"

text \<open>The goals \<^verbatim>\<open>'milk' | 'draught' | 'dual-purpose' | 'low-maintenance'\<close> of the input schema.\<close>

datatype goal = Milk | Draught | DualPurpose | LowMaintenance

text \<open>A catalog entry, with the fields that \<^verbatim>\<open>recommendBreeds\<close> reads.\<close>

record breed =
  breedName :: string
  marketPrice :: rat
  milkYield :: rat
  strength :: tier
  maintenanceCost :: tier
  careLevel :: tier
  climateSuitability :: "string list"

text \<open>\<^verbatim>\<open>RecommendBreedsInput\<close>.\<close>

record RecommendBreedsInput =
  goal :: goal
  budget :: rat
  landSize :: rat
  regionalClimate :: string
  language :: string

text \<open>The five sub-scores of an entry.\<close>

record scores =
  milkYieldScore :: rat
  strengthScore :: rat
  careRequirementScore :: rat
  roiScore :: rat
  climateMatchScore :: rat

text \<open>An element of \<^verbatim>\<open>scoredBreeds\<close>: the breed with its computed figures.\<close>

record ScoredBreed =
  breed :: breed
  overallScore :: rat
  scores :: scores
  roi :: rat

text \<open>The weights of one goal.\<close>

record weights =
  w_milk :: rat
  w_roi :: rat
  w_care :: rat
  w_climate :: rat
  w_strength :: rat

text \<open>
  \<^verbatim>\<open>RecommendedBreedSchema\<close>: an entry of the prompt's output and of the final result
  (the same schema serves both).
\<close>

record RecommendedBreed =
  r_breedName :: string
  r_overallScore :: rat
  pros :: string
  cons :: string
  r_roi :: rat
  r_careLevel :: string
  r_scores :: scores

record RecommendBreedsOutput =
  recommendedBreeds :: "RecommendedBreed list"

text \<open>An element of \<^verbatim>\<open>breedsForPrompt\<close>: three computed fields and the raw breed data.\<close>

record PromptBreed =
  pb_breedName :: string
  pb_overallScore :: rat
  pb_roi :: rat
  pb_careLevel :: tier
  pb_breed :: breed

text \<open>The argument of \<^verbatim>\<open>recommendationPrompt\<close>.\<close>

record PromptInput =
  p_language :: string
  p_goal :: goal
  p_breeds :: "PromptBreed list"

text \<open>A thrown \<^verbatim>\<open>Error\<close> with its message.\<close>

datatype error = Error string

text \<open>
  What awaiting the prompt gives: a rejection (\<open>Inl\<close>), or a response whose
  \<^verbatim>\<open>output\<close> is null (\<open>Inr None\<close>) or an object of the output schema.
\<close>

type_synonym prompt = "PromptInput \<Rightarrow> error + RecommendBreedsOutput option"

subsection \<open>Helper functions for scoring\<close>

definition normalize :: "rat \<Rightarrow> rat \<Rightarrow> rat \<Rightarrow> rat" where
  "normalize v mn mx =
     (if mx = mn then 1 else max 0 (min 1 ((v - mn) / (mx - mn))))"

definition getScore :: "tier \<Rightarrow> rat" where
  "getScore v = (if v = High then 10 else if v = Medium then 5 else 1)"

text \<open>\<^verbatim>\<open>Math.round\<close>: the nearest integer, a half rounded up.\<close>

definition Math_round :: "rat \<Rightarrow> rat" where
  "Math_round x = of_int \<lfloor>x + 1 / 2\<rfloor>"

subsection \<open>Double-precision arithmetic\<close>

text \<open>
  The result of an arithmetic operation on doubles is the exact result rounded to the
  nearest double, a tie going to the double whose last significand bit is 0 (IEEE 754
  binary64, round to nearest, ties to even). A positive value is scaled by a power of
  two into the range of a 53-bit significand, \<open>2^52 \<le> y < 2^53\<close> (or below it for a
  subnormal, where the scaling stops at \<open>2^1074\<close>), rounded to an integer and scaled
  back. Results beyond the largest double, which the program turns into Infinity, are
  not modelled.
\<close>

definition round_half_even :: "rat \<Rightarrow> int" where
  "round_half_even y =
     (let f = \<lfloor>y\<rfloor>; d = y - of_int f
      in if d < 1 / 2 then f else if 1 / 2 < d then f + 1
         else if even f then f else f + 1)"

function scale_down :: "rat \<Rightarrow> int \<Rightarrow> rat \<times> int" where
  "scale_down y k = (if 2 ^ 53 \<le> y then scale_down (y / 2) (k - 1) else (y, k))"
  by pat_completeness auto
termination
proof (relation "measure (\<lambda>(y, k). nat \<lfloor>y\<rfloor>)")
  show "wf (measure (\<lambda>(y, k). nat \<lfloor>y\<rfloor>))" by simp
next
  fix y :: rat and k :: int
  assume a: "2 ^ 53 \<le> y"
  then have "y / 2 \<le> y - 1" by simp
  then have "\<lfloor>y / 2\<rfloor> \<le> \<lfloor>y - 1\<rfloor>" by (rule floor_mono)
  moreover have "0 < \<lfloor>y\<rfloor>" using a by simp
  ultimately show "((y / 2, k - 1), (y, k)) \<in> measure (\<lambda>(y, k). nat \<lfloor>y\<rfloor>)"
    by simp
qed

function scale_up :: "rat \<Rightarrow> int \<Rightarrow> rat \<times> int" where
  "scale_up y k = (if y < 2 ^ 52 \<and> k < 1074 then scale_up (y * 2) (k + 1) else (y, k))"
  by pat_completeness auto
termination
  by (relation "measure (\<lambda>(y, k). nat (1074 - k))") auto

declare scale_down.simps [simp del] scale_up.simps [simp del]

definition round_pos :: "rat \<Rightarrow> rat" where
  "round_pos x =
     (case scale_down x 0 of (y, k) \<Rightarrow>
        case scale_up y k of (z, n) \<Rightarrow>
          if 0 \<le> n then of_int (round_half_even z) / 2 ^ nat n
          else of_int (round_half_even z) * 2 ^ nat (- n))"

definition round_to_double :: "rat \<Rightarrow> rat" where
  "round_to_double x =
     (if x = 0 then 0 else if 0 < x then round_pos x else - round_pos (- x))"

subsection \<open>Step 1: the hard constraints\<close>

definition passesFilter :: "RecommendBreedsInput \<Rightarrow> breed \<Rightarrow> bool" where
  "passesFilter input b =
     (if marketPrice b > budget input then False
      else if \<not> List.member (climateSuitability b) (regionalClimate input) then False
      else if goal input = LowMaintenance \<and>
              (maintenanceCost b \<noteq> Low \<or> careLevel b \<noteq> Low) then False
      else True)"

definition filteredBreeds :: "breed list \<Rightarrow> RecommendBreedsInput \<Rightarrow> breed list" where
  "filteredBreeds indianBreedData input = filter (passesFilter input) indianBreedData"

subsection \<open>Steps 2 and 3: scoring\<close>

definition maintenanceMapping :: "tier \<Rightarrow> rat" where
  "maintenanceMapping t = (case t of Low \<Rightarrow> 3000 | Medium \<Rightarrow> 5000 | High \<Rightarrow> 8000)"

text \<open>
  \<^verbatim>\<open>monthlyIncome\<close>, \<^verbatim>\<open>estimatedProfit\<close> and, below, \<^verbatim>\<open>netAnnualProfit\<close> and \<^verbatim>\<open>roi\<close>:
  every multiplication, subtraction and division gives a double.
\<close>

definition monthlyIncome :: "breed \<Rightarrow> rat" where
  "monthlyIncome b = round_to_double (round_to_double (milkYield b * 30) * 55)"

definition estimatedProfit :: "breed \<Rightarrow> rat" where
  "estimatedProfit b =
     round_to_double (monthlyIncome b - maintenanceMapping (maintenanceCost b))"

text \<open>The \<^verbatim>\<open>switch\<close> on the goal; the last case is shared with \<^verbatim>\<open>default\<close>.\<close>

definition goalWeights :: "goal \<Rightarrow> weights" where
  "goalWeights g =
     (case g of
        Milk \<Rightarrow> \<lparr>w_milk = 0.5, w_roi = 0.3, w_care = 0.1, w_climate = 0.1, w_strength = 0\<rparr>
      | Draught \<Rightarrow> \<lparr>w_milk = 0.1, w_roi = 0.2, w_care = 0.2, w_climate = 0.1, w_strength = 0.4\<rparr>
      | DualPurpose \<Rightarrow> \<lparr>w_milk = 0.3, w_roi = 0.3, w_care = 0.1, w_climate = 0.1, w_strength = 0.2\<rparr>
      | LowMaintenance \<Rightarrow> \<lparr>w_milk = 0.1, w_roi = 0.3, w_care = 0.4, w_climate = 0.1, w_strength = 0\<rparr>)"

definition weightSum :: "weights \<Rightarrow> rat" where
  "weightSum w = w_milk w + w_roi w + w_care w + w_climate w + w_strength w"

text \<open>
  The constants of the scoring callback, before any rounding: \<^verbatim>\<open>milkYieldScore\<close>,
  \<^verbatim>\<open>strengthScore\<close>, \<^verbatim>\<open>careRequirementScore\<close>, \<^verbatim>\<open>climateMatchScore\<close>, \<^verbatim>\<open>roiScore\<close>,
  \<^verbatim>\<open>roi\<close> and \<^verbatim>\<open>overallScore\<close>.
\<close>

definition raw_milkYieldScore :: "breed \<Rightarrow> rat" where
  "raw_milkYieldScore b = normalize (milkYield b) 1 15 * 10"

definition raw_strengthScore :: "breed \<Rightarrow> rat" where
  "raw_strengthScore b = getScore (strength b)"

definition raw_careRequirementScore :: "breed \<Rightarrow> rat" where
  "raw_careRequirementScore b = 10 - getScore (careLevel b)"

definition raw_climateMatchScore :: "breed \<Rightarrow> rat" where
  "raw_climateMatchScore b = 10"

definition raw_roiScore :: "breed \<Rightarrow> rat" where
  "raw_roiScore b = normalize (estimatedProfit b) (- 5000) 20000 * 10"

definition raw_roi :: "breed \<Rightarrow> rat" where
  "raw_roi b =
     (let initialInvestment = marketPrice b;
          netAnnualProfit = round_to_double (estimatedProfit b * 12)
      in if initialInvestment > 0
         then round_to_double (round_to_double (netAnnualProfit / initialInvestment) * 100)
         else 0)"

definition raw_overallScore :: "RecommendBreedsInput \<Rightarrow> breed \<Rightarrow> rat" where
  "raw_overallScore input b =
     (let ws = goalWeights (goal input)
      in raw_milkYieldScore b * w_milk ws +
         raw_strengthScore b * w_strength ws +
         raw_careRequirementScore b * w_care ws +
         raw_roiScore b * w_roi ws +
         raw_climateMatchScore b * w_climate ws)"

text \<open>The object that the callback returns.\<close>

definition scoreBreed :: "RecommendBreedsInput \<Rightarrow> breed \<Rightarrow> ScoredBreed" where
  "scoreBreed input b =
     \<lparr>breed = b,
      overallScore = Math_round (min 10 (max 0 (raw_overallScore input b)) * 10) / 10,
      scores = \<lparr>milkYieldScore = Math_round (raw_milkYieldScore b),
                strengthScore = Math_round (raw_strengthScore b),
                careRequirementScore = Math_round (raw_careRequirementScore b),
                roiScore = Math_round (raw_roiScore b),
                climateMatchScore = Math_round (raw_climateMatchScore b)\<rparr>,
      roi = Math_round (raw_roi b)\<rparr>"

definition scoredBreeds :: "breed list \<Rightarrow> RecommendBreedsInput \<Rightarrow> ScoredBreed list" where
  "scoredBreeds indianBreedData input =
     map (scoreBreed input) (filteredBreeds indianBreedData input)"

subsection \<open>Step 4: sort and select the top 3\<close>

text \<open>
  \<^verbatim>\<open>Array.prototype.sort\<close> with a comparator, which ECMAScript requires to be stable:
  an insertion sort that puts \<open>a\<close> before \<open>b\<close> when \<open>compareFn a b \<le> 0\<close> and \<open>a\<close> came
  first in the array.
\<close>

fun insert_by :: "('a \<Rightarrow> 'a \<Rightarrow> rat) \<Rightarrow> 'a \<Rightarrow> 'a list \<Rightarrow> 'a list" where
  "insert_by compareFn a [] = [a]"
| "insert_by compareFn a (b # bs) =
     (if compareFn a b \<le> 0 then a # b # bs else b # insert_by compareFn a bs)"

fun array_sort :: "('a \<Rightarrow> 'a \<Rightarrow> rat) \<Rightarrow> 'a list \<Rightarrow> 'a list" where
  "array_sort compareFn [] = []"
| "array_sort compareFn (a # as) = insert_by compareFn a (array_sort compareFn as)"

text \<open>The comparator \<^verbatim>\<open>(a, b) => b.overallScore - a.overallScore\<close>.\<close>

definition byScoreDesc :: "ScoredBreed \<Rightarrow> ScoredBreed \<Rightarrow> rat" where
  "byScoreDesc a b = overallScore b - overallScore a"

text \<open>\<^verbatim>\<open>scoredBreeds.sort(...).slice(0, 3)\<close>.\<close>

definition ranker :: "ScoredBreed list \<Rightarrow> ScoredBreed list" where
  "ranker scored = take 3 (array_sort byScoreDesc scored)"

definition topBreeds :: "breed list \<Rightarrow> RecommendBreedsInput \<Rightarrow> ScoredBreed list" where
  "topBreeds indianBreedData input = ranker (scoredBreeds indianBreedData input)"

subsection \<open>Step 5: the prompt and the merge\<close>

definition breedsForPrompt :: "ScoredBreed list \<Rightarrow> PromptBreed list" where
  "breedsForPrompt ranked =
     map (\<lambda>b. \<lparr>pb_breedName = breedName (breed b),
               pb_overallScore = overallScore b,
               pb_roi = roi b,
               pb_careLevel = careLevel (breed b),
               pb_breed = breed b\<rparr>) ranked"

text \<open>
  The callback of \<^verbatim>\<open>output.recommendedBreeds.map\<close>: \<^verbatim>\<open>topBreeds[index]\<close> is undefined
  at an index past the end, and the callback then returns null (\<open>None\<close>).
\<close>

definition mergeEntry :: "ScoredBreed list \<Rightarrow> RecommendedBreed \<Rightarrow> nat \<Rightarrow> RecommendedBreed option" where
  "mergeEntry ranked rec index =
     (if index < length ranked
      then (let originalBreedData = ranked ! index
            in Some (rec\<lparr>r_overallScore := overallScore originalBreedData,
                         r_roi := roi originalBreedData,
                         r_careLevel := tier_name (careLevel (breed originalBreedData)),
                         r_scores := scores originalBreedData\<rparr>))
      else None)"

definition combinedResult :: "ScoredBreed list \<Rightarrow> RecommendBreedsOutput \<Rightarrow> RecommendBreedsOutput" where
  "combinedResult ranked output =
     \<lparr>recommendedBreeds =
        map the (filter (\<lambda>b. b \<noteq> None)
          (map (\<lambda>(rec, index). mergeEntry ranked rec index)
             (zip (recommendedBreeds output) [0 ..< length (recommendedBreeds output)])))\<rparr>"

subsection \<open>The flow\<close>

text \<open>The object passed to \<^verbatim>\<open>recommendationPrompt\<close>.\<close>

definition promptRequest :: "RecommendBreedsInput \<Rightarrow> ScoredBreed list \<Rightarrow> PromptInput" where
  "promptRequest input ranked =
     \<lparr>p_language = language input, p_goal = goal input, p_breeds = breedsForPrompt ranked\<rparr>"

text \<open>
  The result is the list of requests sent to the prompt, in order, and either the error
  thrown or the value returned.
\<close>

definition recommendBreeds ::
  "breed list \<Rightarrow> prompt \<Rightarrow> RecommendBreedsInput \<Rightarrow>
     PromptInput list \<times> (error + RecommendBreedsOutput)" where
  "recommendBreeds indianBreedData recommendationPrompt input =
     (if length (filteredBreeds indianBreedData input) = 0
      then ([], Inr \<lparr>recommendedBreeds = []\<rparr>)
      else
        (let ranked = topBreeds indianBreedData input;
             request = promptRequest input ranked
         in case recommendationPrompt request of
              Inl e \<Rightarrow> ([request], Inl e)
            | Inr None \<Rightarrow>
                ([request], Inl (Error ''Failed to get recommendations from AI model.''))
            | Inr (Some output) \<Rightarrow> ([request], Inr (combinedResult ranked output))))"

subsection \<open>Example data\<close>

text \<open>The breed and the input of the specification's scenario A, five more breeds and a second input.\<close>

definition exBreedA :: breed where
  "exBreedA = \<lparr>breedName = ''A'', marketPrice = 40000, milkYield = 10, strength = Medium,
                maintenanceCost = Low, careLevel = Low,
                climateSuitability = [''Hot and Dry'']\<rparr>"

definition exBreedB :: breed where
  "exBreedB = \<lparr>breedName = ''B'', marketPrice = 70000, milkYield = 10, strength = High,
                maintenanceCost = Low, careLevel = Medium,
                climateSuitability = [''Hot and Dry'', ''Coastal'']\<rparr>"

definition exBreedC :: breed where
  "exBreedC = \<lparr>breedName = ''C'', marketPrice = 35000, milkYield = 10, strength = High,
                maintenanceCost = Low, careLevel = Medium,
                climateSuitability = [''Hot and Dry'']\<rparr>"

definition exBreedD :: breed where
  "exBreedD = \<lparr>breedName = ''D'', marketPrice = 40000, milkYield = 10, strength = Medium,
                maintenanceCost = Low, careLevel = Low,
                climateSuitability = [''Hot and Dry'']\<rparr>"

definition exBreedE :: breed where
  "exBreedE = \<lparr>breedName = ''E'', marketPrice = 80000, milkYield = 6, strength = Medium,
                maintenanceCost = Low, careLevel = Low,
                climateSuitability = [''Hot and Dry'']\<rparr>"

definition exBreedF :: breed where
  "exBreedF = \<lparr>breedName = ''F'', marketPrice = 96000, milkYield = 8, strength = Medium,
                maintenanceCost = Low, careLevel = Low,
                climateSuitability = [''Hot and Dry'']\<rparr>"

definition exInput :: RecommendBreedsInput where
  "exInput = \<lparr>goal = Milk, budget = 50000, landSize = 1,
               regionalClimate = ''Hot and Dry'', language = ''en''\<rparr>"

definition exInputE :: RecommendBreedsInput where
  "exInputE = \<lparr>goal = Milk, budget = 100000, landSize = 2,
                regionalClimate = ''Hot and Dry'', language = ''en''\<rparr>"

text \<open>A prompt that rejects, one that answers with no item, and one that answers with
  a single item whose numeric fields are made up.\<close>

definition failingPrompt :: prompt where
  "failingPrompt request = Inl (Error ''503 Service Unavailable'')"

definition emptyOutputPrompt :: prompt where
  "emptyOutputPrompt request = Inr (Some \<lparr>recommendedBreeds = []\<rparr>)"

definition exRec :: RecommendedBreed where
  "exRec = \<lparr>r_breedName = ''Alpha'', r_overallScore = 99, pros = ''hardy'', cons = ''rare'',
             r_roi = - 1, r_careLevel = ''High'',
             r_scores = \<lparr>milkYieldScore = 0, strengthScore = 0, careRequirementScore = 0,
                         roiScore = 0, climateMatchScore = 0\<rparr>\<rparr>"

definition oneItemPrompt :: prompt where
  "oneItemPrompt request = Inr (Some \<lparr>recommendedBreeds = [exRec]\<rparr>)"

section \<open>Properties\<close>

subsection \<open>Rounding and ranges\<close>

lemma Math_round_int: "Math_round x \<in> \<int>"
  by (simp add: Math_round_def)

lemma Math_round_nearest: "x - 1 / 2 < Math_round x \<and> Math_round x \<le> x + 1 / 2"
  unfolding Math_round_def by linarith

lemma Math_round_zero: "Math_round 0 = 0"
  by (simp add: Math_round_def floor_eq_iff)

lemma Math_round_bounds:
  assumes "0 \<le> x" and "x \<le> of_int n"
  shows "0 \<le> Math_round x \<and> Math_round x \<le> of_int n"
proof -
  have "0 \<le> \<lfloor>x + 1 / 2\<rfloor>" using assms(1) by simp
  moreover have "\<lfloor>x + 1 / 2\<rfloor> \<le> n"
  proof -
    have "x + 1 / 2 < of_int (n + 1)" using assms(2) by simp
    then have "\<lfloor>x + 1 / 2\<rfloor> < n + 1" by (simp only: floor_less_iff)
    then show ?thesis by simp
  qed
  ultimately show ?thesis by (simp add: Math_round_def)
qed

lemma Math_round_image:
  assumes "0 \<le> x" and "x \<le> of_int n"
  shows "Math_round x \<in> of_int ` {0..n}"
proof -
  have "0 \<le> \<lfloor>x + 1 / 2\<rfloor>" using assms(1) by simp
  moreover have "\<lfloor>x + 1 / 2\<rfloor> \<le> n"
  proof -
    have "x + 1 / 2 < of_int (n + 1)" using assms(2) by simp
    then have "\<lfloor>x + 1 / 2\<rfloor> < n + 1" by (simp only: floor_less_iff)
    then show ?thesis by simp
  qed
  ultimately show ?thesis by (simp add: Math_round_def)
qed

lemma normalize_range: "0 \<le> normalize v mn mx \<and> normalize v mn mx \<le> 1"
  by (simp add: normalize_def)

lemma getScore_cases: "getScore t = 1 \<or> getScore t = 5 \<or> getScore t = 10"
  by (simp add: getScore_def)

lemma raw_milkYieldScore_bounds: "0 \<le> raw_milkYieldScore b \<and> raw_milkYieldScore b \<le> 10"
  using normalize_range [of "milkYield b" 1 15] by (simp add: raw_milkYieldScore_def)

lemma raw_roiScore_bounds: "0 \<le> raw_roiScore b \<and> raw_roiScore b \<le> 10"
  using normalize_range [of "estimatedProfit b" "- 5000" 20000] by (simp add: raw_roiScore_def)

lemma raw_strengthScore_bounds: "0 \<le> raw_strengthScore b \<and> raw_strengthScore b \<le> 10"
  using getScore_cases [of "strength b"] by (auto simp add: raw_strengthScore_def)

lemma raw_careRequirementScore_bounds:
  "0 \<le> raw_careRequirementScore b \<and> raw_careRequirementScore b \<le> 10"
  using getScore_cases [of "careLevel b"] by (auto simp add: raw_careRequirementScore_def)

lemma raw_overallScore_bounds: "0 \<le> raw_overallScore i b \<and> raw_overallScore i b \<le> 10"
  using raw_milkYieldScore_bounds [of b] raw_roiScore_bounds [of b]
    raw_strengthScore_bounds [of b] raw_careRequirementScore_bounds [of b]
  by (cases "goal i")
    (simp_all add: raw_overallScore_def goalWeights_def raw_climateMatchScore_def)

subsection \<open>The error of double-precision rounding\<close>

lemma round_half_even_error: "\<bar>of_int (round_half_even y) - y\<bar> \<le> 1 / 2"
proof -
  have "of_int \<lfloor>y\<rfloor> \<le> y" "y < of_int \<lfloor>y\<rfloor> + 1" by linarith+
  then show ?thesis
    by (auto simp add: round_half_even_def Let_def abs_le_iff)
qed

lemma scale_down_spec:
  "scale_down y k = (y', k') \<Longrightarrow>
     k' \<le> k \<and> y = y' * 2 ^ nat (k - k') \<and> y' < 2 ^ 53 \<and> (k' < k \<longrightarrow> 2 ^ 52 \<le> y')"
proof (induction y k rule: scale_down.induct)
  case (1 y k)
  show ?case
  proof (cases "(2::rat) ^ 53 \<le> y")
    case True
    with "1.prems" have r: "scale_down (y / 2) (k - 1) = (y', k')"
      by (simp add: scale_down.simps [of y k])
    from "1.IH" [OF True r] have ih: "k' \<le> k - 1" "y / 2 = y' * 2 ^ nat (k - 1 - k')"
      "y' < 2 ^ 53" "k' < k - 1 \<longrightarrow> 2 ^ 52 \<le> y'"
      by blast+
    have e: "nat (k - k') = Suc (nat (k - 1 - k'))" using ih(1) by simp
    have y: "y = y' * 2 ^ nat (k - k')" using ih(2) by (simp add: e)
    have lo: "2 ^ 52 \<le> y'"
    proof (cases "k' < k - 1")
      case True
      with ih(4) show ?thesis by simp
    next
      case False
      with ih(1) have "k - 1 - k' = 0" by simp
      with ih(2) have "y' = y / 2" by simp
      with True show ?thesis by simp
    qed
    from ih(1) y ih(3) lo show ?thesis by simp
  next
    case False
    with "1.prems" have "y' = y" "k' = k" by (simp_all add: scale_down.simps [of y k])
    with False show ?thesis by simp
  qed
qed

lemma scale_up_spec:
  "scale_up y k = (z, n) \<Longrightarrow>
     k \<le> n \<and> z = y * 2 ^ nat (n - k) \<and> (2 ^ 52 \<le> z \<or> 1074 \<le> n) \<and>
     (2 ^ 52 \<le> y \<longrightarrow> z = y \<and> n = k)"
proof (induction y k rule: scale_up.induct)
  case (1 y k)
  show ?case
  proof (cases "y < 2 ^ 52 \<and> k < 1074")
    case True
    with "1.prems" have r: "scale_up (y * 2) (k + 1) = (z, n)"
      by (simp add: scale_up.simps [of y k])
    from "1.IH" [OF True r] have ih: "k + 1 \<le> n" "z = y * 2 * 2 ^ nat (n - (k + 1))"
      "2 ^ 52 \<le> z \<or> 1074 \<le> n"
      by blast+
    have e: "nat (n - k) = Suc (nat (n - (k + 1)))" using ih(1) by simp
    have zy: "z = y * 2 ^ nat (n - k)" using ih(2) by (simp add: e)
    have kn: "k \<le> n" using ih(1) by simp
    have no: "\<not> 2 ^ 52 \<le> y" using True by simp
    from kn zy ih(3) no show ?thesis by blast
  next
    case False
    then have "scale_up y k = (y, k)" by (subst scale_up.simps) (simp only: if_False)
    with "1.prems" have "z = y" "n = k" by simp_all
    with False show ?thesis by auto
  qed
qed

lemma round_pos_error:
  assumes "0 < x"
  shows "\<bar>round_pos x - x\<bar> \<le> x / 2 ^ 53 + 1 / 2 ^ 1075"
proof -
  obtain y k where sd: "scale_down x 0 = (y, k)" by (cases "scale_down x 0")
  obtain z n where su: "scale_up y k = (z, n)" by (cases "scale_up y k")
  let ?m = "of_int (round_half_even z) :: rat"
  have m: "\<bar>?m - z\<bar> \<le> 1 / 2" by (rule round_half_even_error)
  from scale_down_spec [OF sd] have d: "k \<le> 0" "x = y * 2 ^ nat (- k)" "k < 0 \<longrightarrow> 2 ^ 52 \<le> y"
    by simp_all
  from scale_up_spec [OF su] have u: "k \<le> n" "z = y * 2 ^ nat (n - k)"
    "2 ^ 52 \<le> z \<or> 1074 \<le> n" "2 ^ 52 \<le> y \<longrightarrow> z = y \<and> n = k"
    by blast+
  show ?thesis
  proof (cases "0 \<le> n")
    case True
    have k0: "k = 0"
    proof (rule ccontr)
      assume "k \<noteq> 0"
      with d(1) have "k < 0" by simp
      with d(3) u(4) have "n = k" by simp
      with \<open>k < 0\<close> True show False by simp
    qed
    let ?p = "(2::rat) ^ nat n"
    have p: "0 < ?p" by simp
    have xz: "x = z / ?p" using d(2) u(2) k0 by simp
    have r: "round_pos x = ?m / ?p" using True by (simp add: round_pos_def sd su)
    have "round_pos x - x = ?m / ?p - x" by (simp only: r)
    also have "\<dots> = ?m / ?p - z / ?p" using xz by simp
    finally have "round_pos x - x = (?m - z) / ?p" by (simp add: diff_divide_distrib)
    then have e: "\<bar>round_pos x - x\<bar> = \<bar>?m - z\<bar> / ?p" by (simp add: abs_divide)
    have b: "\<bar>round_pos x - x\<bar> \<le> (1 / 2) / ?p"
      unfolding e by (rule divide_right_mono [OF m]) simp
    show ?thesis
    proof (cases "(2::rat) ^ 52 \<le> z")
      case True
      have zp: "0 < z" using True by simp
      have "x / z = (z / ?p) / z" by (subst xz) (rule refl)
      then have "1 / ?p = x / z" using zp by simp
      also have "\<dots> \<le> x / 2 ^ 52"
      proof (rule divide_left_mono)
        show "2 ^ 52 \<le> z" by (rule True)
        show "0 \<le> x" using assms by simp
        show "0 < z * 2 ^ 52" using zp by simp
      qed
      finally have "(1 / 2) / ?p \<le> x / 2 ^ 53" by simp
      with b show ?thesis by simp
    next
      case False
      with u(3) have "1074 \<le> n" by simp
      then have "(2::rat) ^ 1074 \<le> ?p"
        by (intro power_increasing) simp_all
      then have "1 / ?p \<le> 1 / 2 ^ 1074"
        by (intro divide_left_mono) simp_all
      then have "(1 / 2) / ?p \<le> 1 / 2 ^ 1075" by simp
      moreover have "0 \<le> x / 2 ^ 53" using assms by simp
      ultimately show ?thesis using b by linarith
    qed
  next
    case False
    then have n: "n < 0" by simp
    with u(1) have "k < 0" by simp
    with d(3) u(4) have zy: "z = y" "n = k" "2 ^ 52 \<le> z" by simp_all
    let ?p = "(2::rat) ^ nat (- n)"
    have p: "0 < ?p" by simp
    have xz: "x = z * ?p" using d(2) zy by simp
    have r: "round_pos x = ?m * ?p" using n by (simp add: round_pos_def sd su)
    have "round_pos x - x = ?m * ?p - x" by (simp only: r)
    also have "\<dots> = ?m * ?p - z * ?p" using xz by simp
    finally have "round_pos x - x = (?m - z) * ?p" by (simp add: algebra_simps)
    then have e: "\<bar>round_pos x - x\<bar> = \<bar>?m - z\<bar> * ?p" by (simp add: abs_mult)
    have b: "\<bar>round_pos x - x\<bar> \<le> (1 / 2) * ?p"
      unfolding e by (rule mult_right_mono [OF m]) simp
    have zp: "0 < z" using zy(3) by simp
    have "x / z = (z * ?p) / z" by (subst xz) (rule refl)
    then have "?p = x / z" using zp by simp
    also have "\<dots> \<le> x / 2 ^ 52"
    proof (rule divide_left_mono)
      show "2 ^ 52 \<le> z" by (rule zy(3))
      show "0 \<le> x" using assms by simp
      show "0 < z * 2 ^ 52" using zp by simp
    qed
    finally have "(1 / 2) * ?p \<le> x / 2 ^ 53" by simp
    with b show ?thesis by simp
  qed
qed

lemma round_to_double_error:
  "\<bar>round_to_double x - x\<bar> \<le> \<bar>x\<bar> / 2 ^ 53 + 1 / 2 ^ 1075"
proof -
  consider "x = 0" | "0 < x" | "x < 0" by linarith
  then show ?thesis
  proof cases
    case 1
    then show ?thesis by (simp add: round_to_double_def)
  next
    case 2
    with round_pos_error [OF 2] show ?thesis by (simp add: round_to_double_def)
  next
    case 3
    then have "0 < - x" by simp
    from round_pos_error [OF this] 3 show ?thesis by (simp add: round_to_double_def)
  qed
qed

lemma roi_chain_error:
  fixes E P :: rat
  assumes P: "1 \<le> P"
  shows "\<bar>round_to_double (round_to_double (round_to_double (E * 12) / P) * 100) -
           E * 12 / P * 100\<bar>
         \<le> \<bar>E * 12 / P * 100\<bar> / 2 ^ 51 + 1 / 2 ^ 1000"
proof -
  define h :: rat where "h = 1 / 2 ^ 1075"
  define a where "a = E * 12"
  define n1 where "n1 = round_to_double a"
  define b where "b = n1 / P"
  define q where "q = round_to_double b"
  define c where "c = q * 100"
  define r where "r = round_to_double c"
  define v where "v = a / P * 100"
  define W where "W = \<bar>a\<bar> / P"
  define X where "X = \<bar>n1 - a\<bar> / P"
  define D1 where "D1 = \<bar>n1 - a\<bar>"
  define D2 where "D2 = \<bar>q - b\<bar>"
  define D3 where "D3 = \<bar>r - c\<bar>"
  define Q where "Q = \<bar>q\<bar>"
  define B where "B = \<bar>b\<bar>"
  have Ppos: "0 < P" using P by simp
  have h0: "0 \<le> h" by (simp add: h_def)
  have hh: "302 * h \<le> 1 / 2 ^ 1000" by (simp add: h_def)
  have W0: "0 \<le> W" using Ppos by (simp add: W_def)
  have e1: "D1 \<le> \<bar>a\<bar> / 2 ^ 53 + h"
    unfolding D1_def n1_def h_def by (rule round_to_double_error)
  have e2: "D2 \<le> B / 2 ^ 53 + h"
    unfolding D2_def B_def q_def h_def by (rule round_to_double_error)
  have e3: "D3 \<le> \<bar>c\<bar> / 2 ^ 53 + h"
    unfolding D3_def r_def h_def by (rule round_to_double_error)
  have hP: "h / P \<le> h"
  proof -
    have "h * 1 \<le> h * P" by (rule mult_left_mono [OF P h0])
    then show ?thesis using Ppos by (simp add: divide_le_eq)
  qed
  have X: "X \<le> W / 2 ^ 53 + h"
  proof -
    have "D1 / P \<le> (\<bar>a\<bar> / 2 ^ 53 + h) / P"
      by (rule divide_right_mono [OF e1]) (use Ppos in simp)
    also have "\<dots> = W / 2 ^ 53 + h / P"
      by (simp add: W_def add_divide_distrib)
    finally show ?thesis using hP by (simp add: X_def D1_def)
  qed
  have Bb: "B \<le> W + X"
  proof -
    have "\<bar>n1\<bar> \<le> \<bar>a\<bar> + D1" unfolding D1_def by linarith
    then have "\<bar>n1\<bar> / P \<le> (\<bar>a\<bar> + D1) / P"
      by (rule divide_right_mono) (use Ppos in simp)
    also have "\<dots> = W + X" by (simp add: W_def X_def D1_def add_divide_distrib)
    finally show ?thesis using Ppos by (simp add: B_def b_def)
  qed
  have Qb: "Q \<le> B + D2" unfolding Q_def B_def D2_def by linarith
  have cQ: "\<bar>c\<bar> = 100 * Q" by (simp add: c_def Q_def abs_mult)
  have vW: "\<bar>v\<bar> = 100 * W" using Ppos by (simp add: v_def W_def abs_mult)
  have split: "r - v = (r - c) + 100 * (q - b) + 100 * ((n1 - a) / P)"
    using Ppos by (simp add: c_def b_def v_def field_simps)
  have XP: "\<bar>(n1 - a) / P\<bar> = X" using Ppos by (simp add: X_def)
  have tri: "\<bar>r - v\<bar> \<le> D3 + 100 * D2 + 100 * X"
  proof -
    have "\<bar>r - v\<bar> \<le> \<bar>r - c\<bar> + \<bar>100 * (q - b)\<bar> + \<bar>100 * ((n1 - a) / P)\<bar>"
      unfolding split by linarith
    also have "\<dots> = D3 + 100 * D2 + 100 * X"
      unfolding abs_mult XP D3_def D2_def by simp
    finally show ?thesis .
  qed
  have "\<bar>r - v\<bar> \<le> 100 * W / 2 ^ 51 + 302 * h"
    using tri e2 e3 X Bb Qb h0 W0 unfolding cQ by simp
  then have "\<bar>r - v\<bar> \<le> \<bar>v\<bar> / 2 ^ 51 + 1 / 2 ^ 1000"
    using hh by (simp add: vW)
  then show ?thesis
    by (simp add: r_def c_def q_def b_def n1_def a_def v_def)
qed

lemma profit_chain_error:
  fixes m C :: rat
  assumes C: "0 \<le> C"
  shows "\<bar>round_to_double (round_to_double (round_to_double (m * 30) * 55) - C) -
           (m * 30 * 55 - C)\<bar>
         \<le> (\<bar>m\<bar> * 1650 + C) / 2 ^ 51 + 1 / 2 ^ 1000"
proof -
  define h :: rat where "h = 1 / 2 ^ 1075"
  define x1 where "x1 = round_to_double (m * 30)"
  define x2 where "x2 = round_to_double (x1 * 55)"
  define e where "e = round_to_double (x2 - C)"
  define M where "M = \<bar>m\<bar>"
  define D1 where "D1 = \<bar>x1 - m * 30\<bar>"
  define D2 where "D2 = \<bar>x2 - x1 * 55\<bar>"
  define D3 where "D3 = \<bar>e - (x2 - C)\<bar>"
  define X1 where "X1 = \<bar>x1\<bar>"
  define X2 where "X2 = \<bar>x2\<bar>"
  define S where "S = \<bar>x2 - C\<bar>"
  have h0: "0 \<le> h" by (simp add: h_def)
  have hh: "302 * h \<le> 1 / 2 ^ 1000" by (simp add: h_def)
  have M0: "0 \<le> M" by (simp add: M_def)
  have e1: "D1 \<le> \<bar>m * 30\<bar> / 2 ^ 53 + h"
    unfolding D1_def x1_def h_def by (rule round_to_double_error)
  have e2: "D2 \<le> \<bar>x1 * 55\<bar> / 2 ^ 53 + h"
    unfolding D2_def x2_def h_def by (rule round_to_double_error)
  have e3: "D3 \<le> S / 2 ^ 53 + h"
    unfolding D3_def S_def e_def h_def by (rule round_to_double_error)
  have a1: "\<bar>m * 30\<bar> = 30 * M" by (simp add: M_def abs_mult)
  have a2: "\<bar>x1 * 55\<bar> = 55 * X1" by (simp add: X1_def abs_mult)
  have b1: "X1 \<le> 30 * M + D1"
  proof -
    have "\<bar>x1\<bar> \<le> \<bar>m * 30\<bar> + \<bar>x1 - m * 30\<bar>" by linarith
    then show ?thesis by (simp only: a1 X1_def D1_def)
  qed
  have b2: "X2 \<le> 55 * X1 + D2"
  proof -
    have "\<bar>x2\<bar> \<le> \<bar>x1 * 55\<bar> + \<bar>x2 - x1 * 55\<bar>" by linarith
    then show ?thesis by (simp only: a2 X2_def D2_def)
  qed
  have b3: "S \<le> X2 + C" unfolding S_def X2_def using C by linarith
  have tri: "\<bar>e - (m * 30 * 55 - C)\<bar> \<le> D3 + D2 + 55 * D1"
  proof -
    have "e - (m * 30 * 55 - C) = (e - (x2 - C)) + (x2 - x1 * 55) + 55 * (x1 - m * 30)"
      by simp
    then have "\<bar>e - (m * 30 * 55 - C)\<bar> \<le>
        \<bar>e - (x2 - C)\<bar> + \<bar>x2 - x1 * 55\<bar> + \<bar>55 * (x1 - m * 30)\<bar>"
      by linarith
    also have "\<dots> = D3 + D2 + 55 * D1"
      unfolding abs_mult D3_def D2_def D1_def by simp
    finally show ?thesis .
  qed
  have "\<bar>e - (m * 30 * 55 - C)\<bar> \<le> 1650 * M / 2 ^ 51 + C / 2 ^ 51 + 302 * h"
    using tri e1 e2 e3 b1 b2 b3 h0 M0 C unfolding a1 a2 by simp
  then have "\<bar>e - (m * 30 * 55 - C)\<bar> \<le> (M * 1650 + C) / 2 ^ 51 + 1 / 2 ^ 1000"
    using hh by (simp add: add_divide_distrib)
  then show ?thesis
    by (simp add: e_def x2_def x1_def M_def)
qed

subsection \<open>The filter predicate\<close>

lemma passesFilter_iff:
  "passesFilter i b \<longleftrightarrow>
     marketPrice b \<le> budget i \<and>
     regionalClimate i \<in> set (climateSuitability b) \<and>
     (goal i \<noteq> LowMaintenance \<or> (maintenanceCost b = Low \<and> careLevel b = Low))"
  by (auto simp add: passesFilter_def)

subsection \<open>Sorting\<close>

lemma array_sort_sort_key:
  "array_sort byScoreDesc xs = sort_key (\<lambda>s. - overallScore s) xs"
proof (induction xs)
  case Nil
  show ?case by simp
next
  case (Cons a as)
  have ins: "insert_by byScoreDesc a ys = insort_key (\<lambda>s. - overallScore s) a ys" for ys
    by (induction ys) (simp_all add: byScoreDesc_def)
  from Cons show ?case by (simp add: ins)
qed

lemma filter_take_prefix: "prefix (filter P (take n xs)) (filter P xs)"
proof -
  have "filter P xs = filter P (take n xs) @ filter P (drop n xs)"
    by (metis append_take_drop_id filter_append)
  then show ?thesis by (simp add: prefix_def)
qed

lemma sorted_desc_array_sort:
  "sorted_wrt (\<lambda>a b. overallScore b \<le> overallScore a) (array_sort byScoreDesc xs)"
proof -
  have "sorted (map (\<lambda>s. - overallScore s) (sort_key (\<lambda>s. - overallScore s) xs))"
    by (rule sorted_sort_key)
  then show ?thesis
    by (simp add: array_sort_sort_key sorted_map)
qed

lemma array_sort_stable:
  "filter (\<lambda>s. overallScore s = k) (array_sort byScoreDesc xs) = filter (\<lambda>s. overallScore s = k) xs"
  using sort_key_stable [of "\<lambda>s. - overallScore s" "- k" xs]
  by (simp add: array_sort_sort_key)

subsection \<open>The merge by index\<close>

lemma zip_snoc_left:
  "zip (xs @ [x]) zs =
     (if length xs < length zs then zip xs zs @ [(x, zs ! length xs)] else zip xs zs)"
proof (induction xs arbitrary: zs)
  case Nil
  show ?case by (cases zs) simp_all
next
  case (Cons a xs)
  show ?case by (cases zs) (simp_all add: Cons.IH)
qed

lemma combinedResult_zip:
  "recommendedBreeds (combinedResult ranked out) =
     map (\<lambda>(rec, s). rec\<lparr>r_overallScore := overallScore s, r_roi := roi s,
                           r_careLevel := tier_name (careLevel (breed s)),
                           r_scores := scores s\<rparr>)
       (zip (recommendedBreeds out) ranked)"
proof -
  have "map the (filter (\<lambda>b. b \<noteq> None)
          (map (\<lambda>(rec, index). mergeEntry ranked rec index) (zip recs [0 ..< length recs]))) =
        map (\<lambda>(rec, s). rec\<lparr>r_overallScore := overallScore s, r_roi := roi s,
                           r_careLevel := tier_name (careLevel (breed s)),
                           r_scores := scores s\<rparr>) (zip recs ranked)" for recs
  proof (induction recs rule: rev_induct)
    case Nil
    show ?case by simp
  next
    case (snoc x xs)
    have z: "zip (xs @ [x]) [0 ..< length (xs @ [x])] = zip xs [0 ..< length xs] @ [(x, length xs)]"
      by simp
    show ?case
      unfolding z using snoc by (simp add: zip_snoc_left mergeEntry_def Let_def)
  qed
  then show ?thesis by (simp add: combinedResult_def)
qed

subsection \<open>The example data, evaluated\<close>

lemma floor_rat_numeral:
  "\<lfloor>numeral a / numeral b :: rat\<rfloor> = numeral a div numeral b"
  using floor_divide_of_int_eq [of "numeral a" "numeral b", where ?'a = rat] by simp

lemma floor_rat_neg_numeral:
  "\<lfloor>- (numeral a / numeral b) :: rat\<rfloor> = - numeral a div numeral b"
  using floor_divide_of_int_eq [of "- numeral a" "numeral b", where ?'a = rat] by simp

lemmas double_eval =
  round_to_double_def round_pos_def scale_down.simps scale_up.simps round_half_even_def
  floor_rat_numeral floor_rat_neg_numeral

lemma ex_profitA: "estimatedProfit exBreedA = 13500"
  by (simp add: estimatedProfit_def monthlyIncome_def maintenanceMapping_def exBreedA_def
      double_eval)

lemma ex_roiA: "raw_roi exBreedA = 405"
proof -
  have p: "marketPrice exBreedA = 40000" by (simp add: exBreedA_def)
  show ?thesis
    unfolding raw_roi_def Let_def ex_profitA p by (simp add: double_eval)
qed

lemma ex_profitC: "estimatedProfit exBreedC = 13500"
  by (simp add: estimatedProfit_def monthlyIncome_def maintenanceMapping_def exBreedC_def
      double_eval)

lemma ex_roiC: "raw_roi exBreedC = 2035667242282423 / 4398046511104"
proof -
  have p: "marketPrice exBreedC = 35000" by (simp add: exBreedC_def)
  show ?thesis
    unfolding raw_roi_def Let_def ex_profitC p by (simp add: double_eval)
qed

lemma ex_profitD: "estimatedProfit exBreedD = 13500"
  by (simp add: estimatedProfit_def monthlyIncome_def maintenanceMapping_def exBreedD_def
      double_eval)

lemma ex_roiD: "raw_roi exBreedD = 405"
proof -
  have p: "marketPrice exBreedD = 40000" by (simp add: exBreedD_def)
  show ?thesis
    unfolding raw_roi_def Let_def ex_profitD p by (simp add: double_eval)
qed

lemma ex_profitE: "estimatedProfit exBreedE = 6900"
  by (simp add: estimatedProfit_def monthlyIncome_def maintenanceMapping_def exBreedE_def
      double_eval)

lemma ex_roiE: "raw_roi exBreedE = 7283165022388223 / 70368744177664"
proof -
  have p: "marketPrice exBreedE = 80000" by (simp add: exBreedE_def)
  show ?thesis
    unfolding raw_roi_def Let_def ex_profitE p by (simp add: double_eval)
qed

lemma ex_profitF: "estimatedProfit exBreedF = 10200"
  by (simp add: estimatedProfit_def monthlyIncome_def maintenanceMapping_def exBreedF_def
      double_eval)

lemma ex_roiF: "raw_roi exBreedF = 8972014882652159 / 70368744177664"
proof -
  have p: "marketPrice exBreedF = 96000" by (simp add: exBreedF_def)
  show ?thesis
    unfolding raw_roi_def Let_def ex_profitF p by (simp add: double_eval)
qed

lemma ex_scoreA:
  "scoreBreed exInput exBreedA =
     \<lparr>breed = exBreedA, overallScore = 7.3,
      scores = \<lparr>milkYieldScore = 6, strengthScore = 5, careRequirementScore = 9,
                roiScore = 7, climateMatchScore = 10\<rparr>,
      roi = 405\<rparr>"
  unfolding scoreBreed_def raw_overallScore_def raw_roiScore_def ex_profitA ex_roiA
  by (simp add: raw_milkYieldScore_def raw_strengthScore_def raw_careRequirementScore_def
      raw_climateMatchScore_def exInput_def exBreedA_def goalWeights_def normalize_def
      getScore_def Math_round_def floor_rat_numeral)

lemma ex_scoreC:
  "scoreBreed exInput exBreedC =
     \<lparr>breed = exBreedC, overallScore = 6.9,
      scores = \<lparr>milkYieldScore = 6, strengthScore = 10, careRequirementScore = 5,
                roiScore = 7, climateMatchScore = 10\<rparr>,
      roi = 463\<rparr>"
  unfolding scoreBreed_def raw_overallScore_def raw_roiScore_def ex_profitC ex_roiC
  by (simp add: raw_milkYieldScore_def raw_strengthScore_def raw_careRequirementScore_def
      raw_climateMatchScore_def exInput_def exBreedC_def goalWeights_def normalize_def
      getScore_def Math_round_def floor_rat_numeral)

lemma ex_scoreD:
  "scoreBreed exInput exBreedD =
     \<lparr>breed = exBreedD, overallScore = 7.3,
      scores = \<lparr>milkYieldScore = 6, strengthScore = 5, careRequirementScore = 9,
                roiScore = 7, climateMatchScore = 10\<rparr>,
      roi = 405\<rparr>"
  unfolding scoreBreed_def raw_overallScore_def raw_roiScore_def ex_profitD ex_roiD
  by (simp add: raw_milkYieldScore_def raw_strengthScore_def raw_careRequirementScore_def
      raw_climateMatchScore_def exInput_def exBreedD_def goalWeights_def normalize_def
      getScore_def Math_round_def floor_rat_numeral)

lemma ex_roundE: "roi (scoreBreed exInputE exBreedE) = 103"
  unfolding scoreBreed_def ex_roiE
  by (simp add: Math_round_def floor_rat_numeral)

lemma ex_roundF: "roi (scoreBreed exInputE exBreedF) = 127"
  unfolding scoreBreed_def ex_roiF
  by (simp add: Math_round_def floor_rat_numeral)

lemma ex_filteredE: "filteredBreeds [exBreedE, exBreedF] exInputE = [exBreedE, exBreedF]"
  by (simp add: filteredBreeds_def passesFilter_def exBreedE_def exBreedF_def exInputE_def)

lemma ex_filtered:
  "filteredBreeds [exBreedC, exBreedB, exBreedA] exInput = [exBreedC, exBreedA]"
  by (simp add: filteredBreeds_def passesFilter_def exBreedA_def exBreedB_def exBreedC_def
      exInput_def)

lemma ex_top:
  "topBreeds [exBreedC, exBreedB, exBreedA] exInput =
     [scoreBreed exInput exBreedA, scoreBreed exInput exBreedC]"
  by (simp add: topBreeds_def scoredBreeds_def ex_filtered ranker_def byScoreDesc_def
      ex_scoreA ex_scoreC)

lemma ex_request:
  "recommendBreeds [exBreedC, exBreedB, exBreedA] oneItemPrompt exInput =
     ([promptRequest exInput [scoreBreed exInput exBreedA, scoreBreed exInput exBreedC]],
      Inr \<lparr>recommendedBreeds =
        [\<lparr>r_breedName = ''Alpha'', r_overallScore = 7.3, pros = ''hardy'', cons = ''rare'',
          r_roi = 405, r_careLevel = ''Low'',
          r_scores = \<lparr>milkYieldScore = 6, strengthScore = 5, careRequirementScore = 9,
                      roiScore = 7, climateMatchScore = 10\<rparr>\<rparr>]\<rparr>)"
proof -
  have care: "careLevel exBreedA = Low" by (simp add: exBreedA_def)
  show ?thesis
    by (simp add: recommendBreeds_def ex_filtered ex_top oneItemPrompt_def combinedResult_def
        mergeEntry_def exRec_def ex_scoreA care)
qed

subsection \<open>The constraint filter\<close>

text \<open>
  C1: a breed of the catalog is in the filtered list exactly when its price is within
  the budget, the regional climate is among its suitable climates, and, for the goal
  low-maintenance, both its maintenance cost and its care level are Low; the filtered
  list is the catalog with the other breeds removed, in catalog order.
\<close>

theorem filteredBreeds_spec:
  "(b \<in> set (filteredBreeds catalog i) \<longleftrightarrow>
      b \<in> set catalog \<and>
      marketPrice b \<le> budget i \<and>
      regionalClimate i \<in> set (climateSuitability b) \<and>
      (goal i \<noteq> LowMaintenance \<or> (maintenanceCost b = Low \<and> careLevel b = Low))) \<and>
   subseq (filteredBreeds catalog i) catalog \<and>
   filteredBreeds catalog i =
     filter (\<lambda>b. marketPrice b \<le> budget i \<and>
                 regionalClimate i \<in> set (climateSuitability b) \<and>
                 (goal i \<noteq> LowMaintenance \<or> (maintenanceCost b = Low \<and> careLevel b = Low)))
       catalog"
proof -
  have eq: "passesFilter i =
      (\<lambda>b. marketPrice b \<le> budget i \<and>
           regionalClimate i \<in> set (climateSuitability b) \<and>
           (goal i \<noteq> LowMaintenance \<or> (maintenanceCost b = Low \<and> careLevel b = Low)))"
    by (rule ext) (rule passesFilter_iff)
  have "b \<in> set (filteredBreeds catalog i) \<longleftrightarrow> b \<in> set catalog \<and> passesFilter i b"
    by (simp add: filteredBreeds_def)
  moreover have "subseq (filteredBreeds catalog i) catalog"
    by (simp add: filteredBreeds_def)
  moreover have "filteredBreeds catalog i = filter (passesFilter i) catalog"
    by (simp add: filteredBreeds_def)
  ultimately show ?thesis
    unfolding eq by blast
qed

theorem filteredBreeds_spec_witness:
  "exBreedA \<in> set [exBreedB, exBreedA] \<and>
   marketPrice exBreedA \<le> budget exInput \<and>
   regionalClimate exInput \<in> set (climateSuitability exBreedA) \<and>
   goal exInput \<noteq> LowMaintenance \<and>
   exBreedA \<in> set (filteredBreeds [exBreedB, exBreedA] exInput) \<and>
   \<not> marketPrice exBreedB \<le> budget exInput \<and>
   exBreedB \<notin> set (filteredBreeds [exBreedB, exBreedA] exInput)"
  using filteredBreeds_spec [of exBreedA "[exBreedB, exBreedA]" exInput]
    filteredBreeds_spec [of exBreedB "[exBreedB, exBreedA]" exInput]
  by (simp add: exBreedA_def exBreedB_def exInput_def)

subsection \<open>The weights of a goal\<close>

text \<open>
  C2, at the goal low-maintenance: the five weights that the scorer uses for this goal
  (milk 0.1, roi 0.3, care 0.4, climate 0.1, strength 0) sum to 0.9, while those of
  each of the three other goals sum to 1.
\<close>

theorem goalWeights_sum:
  "weightSum (goalWeights LowMaintenance) = 0.9 \<and>
   weightSum (goalWeights Milk) = 1 \<and>
   weightSum (goalWeights Draught) = 1 \<and>
   weightSum (goalWeights DualPurpose) = 1"
  by (simp add: weightSum_def goalWeights_def)

subsection \<open>The scorer\<close>

text \<open>
  C3: for every filtered breed, the overallScore is the weighted sum clamped to [0, 10],
  then rounded to one decimal place, and it lies in [0, 10]; each of the five sub-scores
  is an integer between 0 and 10.
\<close>

theorem scoreBreed_ranges:
  assumes "b \<in> set (filteredBreeds catalog i)"
  shows "scoreBreed i b \<in> set (scoredBreeds catalog i) \<and>
    overallScore (scoreBreed i b) =
      Math_round (min 10 (max 0 (raw_overallScore i b)) * 10) / 10 \<and>
    0 \<le> overallScore (scoreBreed i b) \<and> overallScore (scoreBreed i b) \<le> 10 \<and>
    overallScore (scoreBreed i b) * 10 \<in> \<int> \<and>
    milkYieldScore (scores (scoreBreed i b)) \<in> of_int ` {0..10} \<and>
    strengthScore (scores (scoreBreed i b)) \<in> of_int ` {0..10} \<and>
    careRequirementScore (scores (scoreBreed i b)) \<in> of_int ` {0..10} \<and>
    roiScore (scores (scoreBreed i b)) \<in> of_int ` {0..10} \<and>
    climateMatchScore (scores (scoreBreed i b)) \<in> of_int ` {0..10}"
proof -
  let ?c = "min 10 (max 0 (raw_overallScore i b)) * 10"
  have mem: "scoreBreed i b \<in> set (scoredBreeds catalog i)"
    using assms by (simp add: scoredBreeds_def)
  have ov: "overallScore (scoreBreed i b) = Math_round ?c / 10"
    by (simp add: scoreBreed_def)
  have c: "0 \<le> ?c" "?c \<le> of_int 100" by simp_all
  from Math_round_bounds [OF c] have rb: "0 \<le> Math_round ?c" "Math_round ?c \<le> 100"
    by simp_all
  have lo: "0 \<le> overallScore (scoreBreed i b)" using rb(1) by (simp add: ov)
  have hi: "overallScore (scoreBreed i b) \<le> 10" using rb(2) by (simp add: ov)
  have dec: "overallScore (scoreBreed i b) * 10 \<in> \<int>"
    by (simp add: ov Math_round_int)
  have m: "milkYieldScore (scores (scoreBreed i b)) \<in> of_int ` {0..10}"
    using Math_round_image [of "raw_milkYieldScore b" 10] raw_milkYieldScore_bounds [of b]
    by (simp add: scoreBreed_def)
  have s: "strengthScore (scores (scoreBreed i b)) \<in> of_int ` {0..10}"
    using Math_round_image [of "raw_strengthScore b" 10] raw_strengthScore_bounds [of b]
    by (simp add: scoreBreed_def)
  have cr: "careRequirementScore (scores (scoreBreed i b)) \<in> of_int ` {0..10}"
    using Math_round_image [of "raw_careRequirementScore b" 10]
      raw_careRequirementScore_bounds [of b]
    by (simp add: scoreBreed_def)
  have r: "roiScore (scores (scoreBreed i b)) \<in> of_int ` {0..10}"
    using Math_round_image [of "raw_roiScore b" 10] raw_roiScore_bounds [of b]
    by (simp add: scoreBreed_def)
  have cl: "climateMatchScore (scores (scoreBreed i b)) \<in> of_int ` {0..10}"
    using Math_round_image [of "raw_climateMatchScore b" 10]
    by (simp add: scoreBreed_def raw_climateMatchScore_def)
  from mem ov lo hi dec m s cr r cl show ?thesis by blast
qed

theorem scoreBreed_ranges_witness:
  "exBreedA \<in> set (filteredBreeds [exBreedC, exBreedB, exBreedA] exInput) \<and>
   overallScore (scoreBreed exInput exBreedA) = 7.3 \<and>
   0 \<le> overallScore (scoreBreed exInput exBreedA) \<and>
   overallScore (scoreBreed exInput exBreedA) \<le> 10 \<and>
   milkYieldScore (scores (scoreBreed exInput exBreedA)) = 6 \<and>
   milkYieldScore (scores (scoreBreed exInput exBreedA)) \<in> of_int ` {0..10}"
proof -
  have h: "exBreedA \<in> set (filteredBreeds [exBreedC, exBreedB, exBreedA] exInput)"
    by (simp add: ex_filtered)
  from h scoreBreed_ranges [OF h] show ?thesis by (simp add: ex_scoreA)
qed

subsection \<open>The ranker\<close>

text \<open>
  C4: the ranker's output is sorted by overallScore, highest first; it has at most 3
  entries and at most as many as there are scored (that is, filtered) breeds; and among
  entries of equal overallScore the order of the scored list, which is catalog order, is
  kept and the earlier ones are chosen: for every score, the output's entries with that
  score are an initial segment of the scored list's entries with that score.
\<close>

theorem ranker_spec:
  "sorted_wrt (\<lambda>a b. overallScore b \<le> overallScore a) (ranker scored) \<and>
   length (ranker scored) \<le> 3 \<and>
   length (ranker scored) \<le> length scored \<and>
   length (topBreeds catalog i) \<le> length (filteredBreeds catalog i) \<and>
   set (ranker scored) \<subseteq> set scored \<and>
   prefix (filter (\<lambda>s. overallScore s = k) (ranker scored))
          (filter (\<lambda>s. overallScore s = k) scored)"
proof -
  have len: "length (array_sort byScoreDesc xs) = length xs" for xs :: "ScoredBreed list"
    by (simp add: array_sort_sort_key)
  have st: "set (array_sort byScoreDesc xs) = set xs" for xs :: "ScoredBreed list"
    by (simp add: array_sort_sort_key)
  have 1: "sorted_wrt (\<lambda>a b. overallScore b \<le> overallScore a) (ranker scored)"
    unfolding ranker_def by (rule sorted_wrt_take) (rule sorted_desc_array_sort)
  have 2: "length (ranker scored) \<le> 3" by (simp add: ranker_def)
  have 3: "length (ranker scored) \<le> length scored" for scored
    by (simp add: ranker_def len)
  have 4: "length (topBreeds catalog i) \<le> length (filteredBreeds catalog i)"
    using 3 [of "scoredBreeds catalog i"] by (simp add: topBreeds_def scoredBreeds_def)
  have 5: "set (ranker scored) \<subseteq> set scored"
    using set_take_subset [of 3 "array_sort byScoreDesc scored"] by (simp add: ranker_def st)
  have 6: "prefix (filter (\<lambda>s. overallScore s = k) (ranker scored))
          (filter (\<lambda>s. overallScore s = k) scored)"
    using filter_take_prefix [of "\<lambda>s. overallScore s = k" 3 "array_sort byScoreDesc scored"]
    by (simp add: ranker_def array_sort_stable)
  from 1 2 3 4 5 6 show ?thesis by blast
qed

theorem ranker_spec_witness:
  "ranker (map (scoreBreed exInput) [exBreedC, exBreedD, exBreedA, exBreedC]) =
     [scoreBreed exInput exBreedD, scoreBreed exInput exBreedA, scoreBreed exInput exBreedC] \<and>
   overallScore (scoreBreed exInput exBreedD) = overallScore (scoreBreed exInput exBreedA) \<and>
   length (ranker (map (scoreBreed exInput) [exBreedC, exBreedD, exBreedA, exBreedC])) \<le> 3 \<and>
   sorted_wrt (\<lambda>a b. overallScore b \<le> overallScore a)
     (ranker (map (scoreBreed exInput) [exBreedC, exBreedD, exBreedA, exBreedC]))"
  using ranker_spec [where scored = "map (scoreBreed exInput) [exBreedC, exBreedD, exBreedA, exBreedC]"
      and catalog = "[]" and i = exInput and k = 0]
  by (simp add: ranker_def byScoreDesc_def ex_scoreA ex_scoreC ex_scoreD)

subsection \<open>The numeric fields of the result\<close>

text \<open>
  C5: in every result that recommendBreeds returns, the entry at index k has the
  overallScore, roi, careLevel and sub-scores of the ranked breed at index k, whatever
  the prompt's item says for them; its breed name, pros and cons are those of the
  prompt's item at index k.
\<close>

theorem numeric_fields_local:
  assumes "recommendBreeds catalog prompt i = (calls, Inr res)"
    and "k < length (recommendedBreeds res)"
  shows "k < length (topBreeds catalog i) \<and>
    r_overallScore (recommendedBreeds res ! k) = overallScore (topBreeds catalog i ! k) \<and>
    r_roi (recommendedBreeds res ! k) = roi (topBreeds catalog i ! k) \<and>
    r_careLevel (recommendedBreeds res ! k) =
      tier_name (careLevel (breed (topBreeds catalog i ! k))) \<and>
    r_scores (recommendedBreeds res ! k) = scores (topBreeds catalog i ! k) \<and>
    (\<exists>out. prompt (promptRequest i (topBreeds catalog i)) = Inr (Some out) \<and>
       k < length (recommendedBreeds out) \<and>
       r_breedName (recommendedBreeds res ! k) = r_breedName (recommendedBreeds out ! k) \<and>
       pros (recommendedBreeds res ! k) = pros (recommendedBreeds out ! k) \<and>
       cons (recommendedBreeds res ! k) = cons (recommendedBreeds out ! k))"
proof -
  let ?ranked = "topBreeds catalog i"
  have ne: "filteredBreeds catalog i \<noteq> []"
  proof
    assume "filteredBreeds catalog i = []"
    with assms(1) have "res = \<lparr>recommendedBreeds = []\<rparr>"
      by (simp add: recommendBreeds_def)
    with assms(2) show False by simp
  qed
  from assms(1) ne obtain out where
    out: "prompt (promptRequest i ?ranked) = Inr (Some out)"
    and res: "res = combinedResult ?ranked out"
    by (auto simp add: recommendBreeds_def Let_def split: sum.splits option.splits)
  let ?z = "zip (recommendedBreeds out) ?ranked"
  have eq: "recommendedBreeds res =
      map (\<lambda>(rec, s). rec\<lparr>r_overallScore := overallScore s, r_roi := roi s,
                           r_careLevel := tier_name (careLevel (breed s)),
                           r_scores := scores s\<rparr>) ?z"
    by (simp add: res combinedResult_zip)
  from assms(2) have kz: "k < length ?z" by (simp add: eq)
  then have k1: "k < length (recommendedBreeds out)" and k2: "k < length ?ranked"
    by simp_all
  have nth: "recommendedBreeds res ! k =
      (recommendedBreeds out ! k)\<lparr>r_overallScore := overallScore (?ranked ! k),
         r_roi := roi (?ranked ! k),
         r_careLevel := tier_name (careLevel (breed (?ranked ! k))),
         r_scores := scores (?ranked ! k)\<rparr>"
    using kz k1 k2 by (simp add: eq)
  show ?thesis
    using out k1 k2 by (simp add: nth)
qed

theorem numeric_fields_local_witness:
  "recommendBreeds [exBreedC, exBreedB, exBreedA] oneItemPrompt exInput =
     ([promptRequest exInput [scoreBreed exInput exBreedA, scoreBreed exInput exBreedC]],
      Inr \<lparr>recommendedBreeds =
        [\<lparr>r_breedName = ''Alpha'', r_overallScore = 7.3, pros = ''hardy'', cons = ''rare'',
          r_roi = 405, r_careLevel = ''Low'',
          r_scores = \<lparr>milkYieldScore = 6, strengthScore = 5, careRequirementScore = 9,
                      roiScore = 7, climateMatchScore = 10\<rparr>\<rparr>]\<rparr>) \<and>
   r_overallScore exRec = 99 \<and>
   overallScore (topBreeds [exBreedC, exBreedB, exBreedA] exInput ! 0) = 7.3 \<and>
   roi (topBreeds [exBreedC, exBreedB, exBreedA] exInput ! 0) = 405"
proof -
  let ?res = "\<lparr>recommendedBreeds =
        [\<lparr>r_breedName = ''Alpha'', r_overallScore = 7.3, pros = ''hardy'', cons = ''rare'',
          r_roi = 405, r_careLevel = ''Low'',
          r_scores = \<lparr>milkYieldScore = 6, strengthScore = 5, careRequirementScore = 9,
                      roiScore = 7, climateMatchScore = 10\<rparr>\<rparr>]\<rparr>"
  have k: "0 < length (recommendedBreeds ?res)" by simp
  from ex_request numeric_fields_local [OF ex_request k] show ?thesis
    by (simp add: exRec_def)
qed

subsection \<open>The prompt's response\<close>

text \<open>
  C6 as stated fails: with a breed that passes the filter and a prompt that answers with
  an output of zero items, recommendBreeds returns the empty list of recommendations and
  raises no error.
\<close>

theorem zero_items_counterexample:
  "filteredBreeds [exBreedC, exBreedB, exBreedA] exInput \<noteq> [] \<and>
   emptyOutputPrompt (promptRequest exInput (topBreeds [exBreedC, exBreedB, exBreedA] exInput)) =
     Inr (Some \<lparr>recommendedBreeds = []\<rparr>) \<and>
   snd (recommendBreeds [exBreedC, exBreedB, exBreedA] emptyOutputPrompt exInput) =
     Inr \<lparr>recommendedBreeds = []\<rparr>"
  by (simp add: recommendBreeds_def ex_filtered emptyOutputPrompt_def combinedResult_def)

text \<open>
  C6, amended: when at least one breed passes the filter, recommendBreeds sends one
  request to the prompt; it raises an error when the prompt's call fails or its response
  has no output (null); when the response has an output, recommendBreeds returns a
  result with as many entries as the smaller of the number of items and the number of
  ranked breeds, so an output of zero items gives the empty result without an error.
\<close>

theorem prompt_outcomes:
  assumes "filteredBreeds catalog i \<noteq> []"
  shows "fst (recommendBreeds catalog prompt i) = [promptRequest i (topBreeds catalog i)] \<and>
    (prompt (promptRequest i (topBreeds catalog i)) = Inr None \<longrightarrow>
       snd (recommendBreeds catalog prompt i) =
         Inl (Error ''Failed to get recommendations from AI model.'')) \<and>
    (\<forall>e. prompt (promptRequest i (topBreeds catalog i)) = Inl e \<longrightarrow>
       snd (recommendBreeds catalog prompt i) = Inl e) \<and>
    (\<forall>out. prompt (promptRequest i (topBreeds catalog i)) = Inr (Some out) \<longrightarrow>
       (\<exists>res. snd (recommendBreeds catalog prompt i) = Inr res \<and>
          length (recommendedBreeds res) =
            min (length (recommendedBreeds out)) (length (topBreeds catalog i)) \<and>
          (recommendedBreeds out = [] \<longrightarrow> res = \<lparr>recommendedBreeds = []\<rparr>)))"
proof -
  let ?req = "promptRequest i (topBreeds catalog i)"
  have calls: "fst (recommendBreeds catalog prompt i) = [?req]"
    using assms by (simp add: recommendBreeds_def Let_def split: sum.splits option.splits)
  have null: "snd (recommendBreeds catalog prompt i) =
      Inl (Error ''Failed to get recommendations from AI model.'')"
    if "prompt ?req = Inr None"
    using assms that by (simp add: recommendBreeds_def Let_def)
  have rej: "snd (recommendBreeds catalog prompt i) = Inl e" if "prompt ?req = Inl e" for e
    using assms that by (simp add: recommendBreeds_def Let_def)
  have ok: "\<exists>res. snd (recommendBreeds catalog prompt i) = Inr res \<and>
      length (recommendedBreeds res) =
        min (length (recommendedBreeds out)) (length (topBreeds catalog i)) \<and>
      (recommendedBreeds out = [] \<longrightarrow> res = \<lparr>recommendedBreeds = []\<rparr>)"
    if "prompt ?req = Inr (Some out)" for out
  proof -
    have r: "snd (recommendBreeds catalog prompt i) =
        Inr (combinedResult (topBreeds catalog i) out)"
      using assms that by (simp add: recommendBreeds_def Let_def)
    have l: "length (recommendedBreeds (combinedResult (topBreeds catalog i) out)) =
        min (length (recommendedBreeds out)) (length (topBreeds catalog i))"
      by (simp add: combinedResult_zip)
    have e: "combinedResult (topBreeds catalog i) out = \<lparr>recommendedBreeds = []\<rparr>"
      if "recommendedBreeds out = []"
      using that by (simp add: combinedResult_def)
    from r l e show ?thesis by blast
  qed
  from calls null rej ok show ?thesis by blast
qed

theorem prompt_outcomes_witness:
  "filteredBreeds [exBreedC, exBreedB, exBreedA] exInput \<noteq> [] \<and>
   failingPrompt (promptRequest exInput (topBreeds [exBreedC, exBreedB, exBreedA] exInput)) =
     Inl (Error ''503 Service Unavailable'') \<and>
   snd (recommendBreeds [exBreedC, exBreedB, exBreedA] failingPrompt exInput) =
     Inl (Error ''503 Service Unavailable'') \<and>
   fst (recommendBreeds [exBreedC, exBreedB, exBreedA] failingPrompt exInput) =
     [promptRequest exInput (topBreeds [exBreedC, exBreedB, exBreedA] exInput)]"
proof -
  have h: "filteredBreeds [exBreedC, exBreedB, exBreedA] exInput \<noteq> []"
    by (simp add: ex_filtered)
  from h prompt_outcomes [OF h, of failingPrompt] show ?thesis
    by (simp add: failingPrompt_def)
qed

subsection \<open>The empty result\<close>

text \<open>
  C7: when no breed of the catalog passes the filter, recommendBreeds returns the empty
  list of recommendations as a value, not an error, and sends no request to the
  text-generation prompt.
\<close>

theorem recommendBreeds_empty:
  "filteredBreeds catalog i = [] \<Longrightarrow>
   recommendBreeds catalog prompt i = ([], Inr \<lparr>recommendedBreeds = []\<rparr>)"
  by (simp add: recommendBreeds_def)

theorem recommendBreeds_empty_witness:
  "filteredBreeds [exBreedB] exInput = [] \<and>
   recommendBreeds [exBreedB] failingPrompt exInput =
     ([], Inr \<lparr>recommendedBreeds = []\<rparr>)"
proof -
  have h: "filteredBreeds [exBreedB] exInput = []"
    by (simp add: filteredBreeds_def passesFilter_def exBreedB_def exInput_def)
  from h recommendBreeds_empty [OF h] show ?thesis by simp
qed

subsection \<open>The normalization primitive\<close>

text \<open>
  C8: normalize gives a value between 0 and 1; when min < max it is 0 at or below min,
  1 at or above max, the linear interpolation (value - min) / (max - min) in between,
  and monotone in the value; and normalize(v, a, a) = 1 for every v and a.
\<close>

theorem normalize_spec:
  "0 \<le> normalize v mn mx \<and> normalize v mn mx \<le> 1 \<and>
   normalize v a a = 1 \<and>
   (mn < mx \<longrightarrow>
      (v \<le> mn \<longrightarrow> normalize v mn mx = 0) \<and>
      (mx \<le> v \<longrightarrow> normalize v mn mx = 1) \<and>
      (mn \<le> v \<and> v \<le> mx \<longrightarrow> normalize v mn mx = (v - mn) / (mx - mn)) \<and>
      (v \<le> w \<longrightarrow> normalize v mn mx \<le> normalize w mn mx))"
proof -
  have range: "0 \<le> normalize v mn mx \<and> normalize v mn mx \<le> 1"
    by (simp add: normalize_def)
  have degenerate: "normalize v a a = 1"
    by (simp add: normalize_def)
  have proper: "(v \<le> mn \<longrightarrow> normalize v mn mx = 0) \<and>
      (mx \<le> v \<longrightarrow> normalize v mn mx = 1) \<and>
      (mn \<le> v \<and> v \<le> mx \<longrightarrow> normalize v mn mx = (v - mn) / (mx - mn)) \<and>
      (v \<le> w \<longrightarrow> normalize v mn mx \<le> normalize w mn mx)" if lt: "mn < mx"
  proof -
    from lt have pos: "0 < mx - mn" and ne: "mx \<noteq> mn" by simp_all
    have low: "normalize v mn mx = 0" if "v \<le> mn"
    proof -
      from that pos have "(v - mn) / (mx - mn) \<le> 0"
        by (simp add: divide_le_0_iff)
      then show ?thesis using ne by (simp add: normalize_def max_def min_def)
    qed
    have high: "normalize v mn mx = 1" if "mx \<le> v"
    proof -
      from that pos have "1 \<le> (v - mn) / (mx - mn)"
        by (simp add: le_divide_eq)
      then show ?thesis using ne by (simp add: normalize_def max_def min_def)
    qed
    have mid: "normalize v mn mx = (v - mn) / (mx - mn)" if "mn \<le> v \<and> v \<le> mx"
    proof -
      from that pos have "0 \<le> (v - mn) / (mx - mn)" and "(v - mn) / (mx - mn) \<le> 1"
        by (simp_all add: divide_le_eq)
      then show ?thesis using ne by (simp add: normalize_def max_def min_def)
    qed
    have mono: "normalize v mn mx \<le> normalize w mn mx" if "v \<le> w"
    proof -
      from that pos have "(v - mn) / (mx - mn) \<le> (w - mn) / (mx - mn)"
        by (simp add: divide_right_mono)
      then show ?thesis using ne by (auto simp add: normalize_def max_def min_def)
    qed
    from low high mid mono show ?thesis by blast
  qed
  from range degenerate proper show ?thesis by blast
qed

theorem normalize_spec_witness:
  "(1::rat) < 15 \<and> (1::rat) \<le> 8 \<and> (8::rat) \<le> 15 \<and> (8::rat) \<le> 10 \<and>
   normalize 8 1 15 = 1 / 2 \<and> normalize 8 1 15 \<le> normalize 10 1 15 \<and>
   normalize 0 1 15 = 0 \<and> normalize 20 1 15 = 1 \<and> normalize 8 3 3 = 1"
  using normalize_spec [of 8 1 15 3 10] normalize_spec [of 0 1 15 3 0]
    normalize_spec [of 20 1 15 3 20]
  by simp

subsection \<open>The return on investment\<close>

lemma maintenanceMapping_range: "0 \<le> maintenanceMapping t \<and> maintenanceMapping t \<le> 8000"
  by (cases t) (simp_all add: maintenanceMapping_def)

lemma estimatedProfit_error:
  "\<bar>estimatedProfit b - (milkYield b * 30 * 55 - maintenanceMapping (maintenanceCost b))\<bar>
     \<le> (\<bar>milkYield b\<bar> * 1650 + maintenanceMapping (maintenanceCost b)) / 2 ^ 51 + 1 / 2 ^ 1000"
  unfolding estimatedProfit_def monthlyIncome_def
  using maintenanceMapping_range [of "maintenanceCost b"]
  by (intro profit_chain_error) simp

lemma raw_roi_error:
  assumes "1 \<le> marketPrice b"
  shows "\<bar>raw_roi b - estimatedProfit b * 12 / marketPrice b * 100\<bar>
     \<le> \<bar>estimatedProfit b * 12 / marketPrice b * 100\<bar> / 2 ^ 51 + 1 / 2 ^ 1000"
proof -
  have "raw_roi b =
      round_to_double (round_to_double (round_to_double (estimatedProfit b * 12) /
        marketPrice b) * 100)"
    using assms by (simp add: raw_roi_def Let_def)
  then show ?thesis
    using roi_chain_error [OF assms, of "estimatedProfit b"] by simp
qed

text \<open>
  C9 as stated fails: for a filtered breed with estimated profit 13500 and market price
  35000 the formula gives 3240/7 (about 462.86) in exact arithmetic and
  2035667242282423/4398046511104 (462.8571428571429) in double precision, and the roi
  reported is 463.
\<close>

theorem roi_unrounded_counterexample:
  "exBreedC \<in> set (filteredBreeds [exBreedC, exBreedB, exBreedA] exInput) \<and>
   marketPrice exBreedC > 0 \<and>
   (estimatedProfit exBreedC * 12 / marketPrice exBreedC) * 100 = 3240 / 7 \<and>
   raw_roi exBreedC = 2035667242282423 / 4398046511104 \<and>
   roi (scoreBreed exInput exBreedC) = 463 \<and>
   roi (scoreBreed exInput exBreedC) \<noteq>
     (estimatedProfit exBreedC * 12 / marketPrice exBreedC) * 100 \<and>
   roi (scoreBreed exInput exBreedC) \<noteq> raw_roi exBreedC"
proof -
  have p: "marketPrice exBreedC = 35000" by (simp add: exBreedC_def)
  show ?thesis by (simp add: ex_filtered ex_scoreC ex_profitC ex_roiC p)
qed

text \<open>
  C9, amended: for every filtered breed whose milk yield is at most 10^100 in magnitude
  and whose market price is not positive or at least 1 (so that no operation overflows),
  the roi reported is 0 when marketPrice is not positive, and otherwise Math.round of
  (estimatedProfit * 12 / marketPrice) * 100 evaluated in double precision, each of the
  three operations rounded to the nearest double: an integer within
  1/2 + |v| / 2^51 + 1 / 2^1000 of the exact value v of the formula (so at an exact tie
  such as v = 103.5 either neighbour may be reported, as the double value falls on one
  side of the tie). Here estimatedProfit = monthlyIncome - monthlyCost, monthlyIncome =
  milkYield * 30 * 55 and monthlyCost is 3000, 5000 or 8000 for the maintenance cost
  tier Low, Medium or High, likewise in double precision, within
  (1650 |milkYield| + monthlyCost) / 2^51 + 1 / 2^1000 of the exact value. The roiScore is
  another quantity, normalize(estimatedProfit, -5000, 20000) * 10, reported as an integer
  between 0 and 10.
\<close>

theorem roi_spec:
  assumes "b \<in> set (filteredBreeds catalog i)"
    and "\<bar>milkYield b\<bar> \<le> 10 ^ 100"
    and "0 < marketPrice b \<longrightarrow> 1 \<le> marketPrice b"
  shows "roi (scoreBreed i b) =
      Math_round
        (if 0 < marketPrice b
         then round_to_double
                (round_to_double (round_to_double (estimatedProfit b * 12) / marketPrice b)
                 * 100)
         else 0) \<and>
    roi (scoreBreed i b) \<in> \<int> \<and>
    (0 < marketPrice b \<longrightarrow>
       \<bar>roi (scoreBreed i b) - estimatedProfit b * 12 / marketPrice b * 100\<bar>
         \<le> 1 / 2 + \<bar>estimatedProfit b * 12 / marketPrice b * 100\<bar> / 2 ^ 51 + 1 / 2 ^ 1000) \<and>
    (\<not> 0 < marketPrice b \<longrightarrow> roi (scoreBreed i b) = 0) \<and>
    estimatedProfit b =
      round_to_double (monthlyIncome b - maintenanceMapping (maintenanceCost b)) \<and>
    monthlyIncome b = round_to_double (round_to_double (milkYield b * 30) * 55) \<and>
    maintenanceMapping (maintenanceCost b) =
      (case maintenanceCost b of Low \<Rightarrow> 3000 | Medium \<Rightarrow> 5000 | High \<Rightarrow> 8000) \<and>
    \<bar>estimatedProfit b - (milkYield b * 30 * 55 - maintenanceMapping (maintenanceCost b))\<bar>
      \<le> (\<bar>milkYield b\<bar> * 1650 + maintenanceMapping (maintenanceCost b)) / 2 ^ 51
          + 1 / 2 ^ 1000 \<and>
    \<bar>estimatedProfit b\<bar> \<le> 10 ^ 104 \<and>
    \<bar>roi (scoreBreed i b)\<bar> \<le> 10 ^ 108 \<and>
    raw_roiScore b = normalize (estimatedProfit b) (- 5000) 20000 * 10 \<and>
    roiScore (scores (scoreBreed i b)) \<in> of_int ` {0..10}"
proof -
  let ?v = "estimatedProfit b * 12 / marketPrice b * 100"
  let ?C = "maintenanceMapping (maintenanceCost b)"
  have rr: "roi (scoreBreed i b) = Math_round (raw_roi b)"
    by (simp add: scoreBreed_def)
  have r: "roi (scoreBreed i b) =
      Math_round
        (if 0 < marketPrice b
         then round_to_double
                (round_to_double (round_to_double (estimatedProfit b * 12) / marketPrice b)
                 * 100)
         else 0)"
    by (simp add: scoreBreed_def raw_roi_def Let_def)
  have int: "roi (scoreBreed i b) \<in> \<int>"
    by (simp only: rr Math_round_int)
  have near: "\<bar>roi (scoreBreed i b) - raw_roi b\<bar> \<le> 1 / 2"
    using Math_round_nearest [of "raw_roi b"] unfolding rr by linarith
  have pos: "\<bar>roi (scoreBreed i b) - ?v\<bar> \<le> 1 / 2 + \<bar>?v\<bar> / 2 ^ 51 + 1 / 2 ^ 1000"
    if p: "0 < marketPrice b"
  proof -
    from p assms(3) have "1 \<le> marketPrice b" by simp
    from raw_roi_error [OF this] near show ?thesis by linarith
  qed
  have zero: "roi (scoreBreed i b) = 0" if "\<not> 0 < marketPrice b"
    using that by (simp add: r Math_round_zero)
  have e: "estimatedProfit b = round_to_double (monthlyIncome b - ?C)"
    by (simp add: estimatedProfit_def)
  have m: "monthlyIncome b = round_to_double (round_to_double (milkYield b * 30) * 55)"
    by (simp add: monthlyIncome_def)
  have c: "?C = (case maintenanceCost b of Low \<Rightarrow> 3000 | Medium \<Rightarrow> 5000 | High \<Rightarrow> 8000)"
    by (simp add: maintenanceMapping_def)
  have ee: "\<bar>estimatedProfit b - (milkYield b * 30 * 55 - ?C)\<bar>
      \<le> (\<bar>milkYield b\<bar> * 1650 + ?C) / 2 ^ 51 + 1 / 2 ^ 1000"
    by (rule estimatedProfit_error)
  have eb: "\<bar>estimatedProfit b\<bar> \<le> 10 ^ 104"
  proof -
    define A where "A = \<bar>milkYield b\<bar> * 1650 + ?C"
    define K where "K = A / 2 ^ 51 + 1 / 2 ^ 1000"
    have C0: "0 \<le> ?C" and C1: "?C \<le> 8000"
      using maintenanceMapping_range [of "maintenanceCost b"] by simp_all
    have A0: "0 \<le> A" using C0 by (simp add: A_def)
    have A1: "A \<le> 10 ^ 100 * 1650 + 8000"
      unfolding A_def using assms(2) C1 by (intro add_mono mult_right_mono) simp_all
    have "A / 2 ^ 51 \<le> A" using A0 by (simp add: divide_le_eq)
    moreover have "(1::rat) / 2 ^ 1000 \<le> 1" by simp
    ultimately have K1: "K \<le> A + 1" unfolding K_def by linarith
    have "\<bar>estimatedProfit b - (milkYield b * 30 * 55 - ?C)\<bar> \<le> K"
      using ee by (simp only: K_def A_def)
    moreover have "\<bar>milkYield b * 30 * 55 - ?C\<bar> \<le> A"
    proof -
      have "\<bar>milkYield b * 30 * 55\<bar> = \<bar>milkYield b\<bar> * 1650" by (simp add: abs_mult)
      then show ?thesis unfolding A_def using C0 by linarith
    qed
    ultimately have "\<bar>estimatedProfit b\<bar> \<le> A + K" by linarith
    with K1 have "\<bar>estimatedProfit b\<bar> \<le> 2 * A + 1" by linarith
    also have "\<dots> \<le> 2 * (10 ^ 100 * 1650 + 8000) + 1" using A1 by simp
    also have "\<dots> \<le> 10 ^ 104" by simp
    finally show ?thesis .
  qed
  have rb: "\<bar>roi (scoreBreed i b)\<bar> \<le> 10 ^ 108"
  proof (cases "0 < marketPrice b")
    case True
    with assms(3) have P: "1 \<le> marketPrice b" by simp
    define V where "V = \<bar>?v\<bar>"
    define G where "G = \<bar>estimatedProfit b\<bar> * 1200"
    have G0: "0 \<le> G" by (simp add: G_def)
    have G1: "G \<le> 10 ^ 104 * 1200"
      unfolding G_def using eb by (intro mult_right_mono) simp_all
    have "V = G / marketPrice b"
      using True by (simp add: V_def G_def abs_mult)
    also have "\<dots> \<le> G / 1"
      by (rule divide_left_mono [OF P G0]) (use True in simp)
    finally have V1: "V \<le> 10 ^ 104 * 1200" using G1 by simp
    have V0: "0 \<le> V" by (simp add: V_def)
    then have V2: "V / 2 ^ 51 \<le> V" by (simp add: divide_le_eq)
    have one: "(1::rat) / 2 ^ 1000 \<le> 1" by simp
    have "\<bar>roi (scoreBreed i b) - ?v\<bar> \<le> 1 / 2 + V / 2 ^ 51 + 1 / 2 ^ 1000"
      using pos [OF True] by (simp only: V_def)
    moreover have "\<bar>roi (scoreBreed i b)\<bar> \<le> \<bar>roi (scoreBreed i b) - ?v\<bar> + V"
      unfolding V_def by linarith
    ultimately have "\<bar>roi (scoreBreed i b)\<bar> \<le> 2 * V + 2"
      using V2 one by linarith
    also have "\<dots> \<le> 2 * (10 ^ 104 * 1200) + 2" using V1 by simp
    also have "\<dots> \<le> 10 ^ 108" by simp
    finally show ?thesis .
  next
    case False
    then show ?thesis by (simp add: zero)
  qed
  have rs: "raw_roiScore b = normalize (estimatedProfit b) (- 5000) 20000 * 10"
    by (simp add: raw_roiScore_def)
  have sc: "roiScore (scores (scoreBreed i b)) \<in> of_int ` {0..10}"
    using Math_round_image [of "raw_roiScore b" 10] raw_roiScore_bounds [of b]
    by (simp add: scoreBreed_def)
  from r int pos zero e m c ee eb rb rs sc show ?thesis by blast
qed

theorem roi_spec_witness:
  "exBreedE \<in> set (filteredBreeds [exBreedE, exBreedF] exInputE) \<and>
   \<bar>milkYield exBreedE\<bar> \<le> 10 ^ 100 \<and> 1 \<le> marketPrice exBreedE \<and>
   estimatedProfit exBreedE = 6900 \<and>
   estimatedProfit exBreedE * 12 / marketPrice exBreedE * 100 = 207 / 2 \<and>
   roi (scoreBreed exInputE exBreedE) = 103 \<and>
   exBreedF \<in> set (filteredBreeds [exBreedE, exBreedF] exInputE) \<and>
   \<bar>milkYield exBreedF\<bar> \<le> 10 ^ 100 \<and> 1 \<le> marketPrice exBreedF \<and>
   estimatedProfit exBreedF * 12 / marketPrice exBreedF * 100 = 255 / 2 \<and>
   roi (scoreBreed exInputE exBreedF) = 127"
proof -
  have hE: "exBreedE \<in> set (filteredBreeds [exBreedE, exBreedF] exInputE)"
    and hF: "exBreedF \<in> set (filteredBreeds [exBreedE, exBreedF] exInputE)"
    by (simp_all add: ex_filteredE)
  have mE: "\<bar>milkYield exBreedE\<bar> \<le> 10 ^ 100" and pE: "marketPrice exBreedE = 80000"
    and mF: "\<bar>milkYield exBreedF\<bar> \<le> 10 ^ 100" and pF: "marketPrice exBreedF = 96000"
    by (simp_all add: exBreedE_def exBreedF_def)
  have qE: "0 < marketPrice exBreedE \<longrightarrow> 1 \<le> marketPrice exBreedE"
    and qF: "0 < marketPrice exBreedF \<longrightarrow> 1 \<le> marketPrice exBreedF"
    by (simp_all add: pE pF)
  from hE hF mE mF roi_spec [OF hE mE qE] roi_spec [OF hF mF qF] show ?thesis
    by (simp add: ex_roundE ex_roundF ex_profitE ex_profitF pE pF)
qed

subsection \<open>The land size\<close>

text \<open>
  C10: the land size of the input has no influence: replacing it by any other value
  leaves the filtered list, every scored breed, the ranked top list, the request sent
  to the prompt and the whole outcome of recommendBreeds unchanged.
\<close>

theorem landSize_irrelevant:
  "filteredBreeds catalog (i\<lparr>landSize := x\<rparr>) = filteredBreeds catalog i \<and>
   scoreBreed (i\<lparr>landSize := x\<rparr>) b = scoreBreed i b \<and>
   scoredBreeds catalog (i\<lparr>landSize := x\<rparr>) = scoredBreeds catalog i \<and>
   topBreeds catalog (i\<lparr>landSize := x\<rparr>) = topBreeds catalog i \<and>
   recommendBreeds catalog prompt (i\<lparr>landSize := x\<rparr>) = recommendBreeds catalog prompt i"
proof -
  have p: "passesFilter (i\<lparr>landSize := x\<rparr>) = passesFilter i"
    by (rule ext) (simp add: passesFilter_def)
  have f: "filteredBreeds catalog (i\<lparr>landSize := x\<rparr>) = filteredBreeds catalog i"
    by (simp add: filteredBreeds_def p)
  have s: "scoreBreed (i\<lparr>landSize := x\<rparr>) = scoreBreed i"
    by (rule ext) (simp add: scoreBreed_def raw_overallScore_def)
  have ss: "scoredBreeds catalog (i\<lparr>landSize := x\<rparr>) = scoredBreeds catalog i"
    by (simp add: scoredBreeds_def f s)
  have t: "topBreeds catalog (i\<lparr>landSize := x\<rparr>) = topBreeds catalog i"
    by (simp add: topBreeds_def ss)
  have r: "recommendBreeds catalog prompt (i\<lparr>landSize := x\<rparr>) = recommendBreeds catalog prompt i"
    by (simp add: recommendBreeds_def promptRequest_def f t)
  from f s ss t r show ?thesis by simp
qed

theorem landSize_irrelevant_witness:
  "topBreeds [exBreedC, exBreedB, exBreedA] (exInput\<lparr>landSize := 25\<rparr>) =
     topBreeds [exBreedC, exBreedB, exBreedA] exInput \<and>
   recommendBreeds [exBreedC, exBreedB, exBreedA] oneItemPrompt (exInput\<lparr>landSize := 25\<rparr>) =
     recommendBreeds [exBreedC, exBreedB, exBreedA] oneItemPrompt exInput"
  using landSize_irrelevant [where catalog = "[exBreedC, exBreedB, exBreedA]" and i = exInput
      and x = 25 and b = exBreedA and prompt = oneItemPrompt]
  by simp

end
